theory Spec2Isabelle
  imports Main "HOL-Library.AList"
begin

section \<open>Python values and the operations the containers use on them\<close>

text \<open>
  The containers of \<^verbatim>\<open>tumdlr/containers.py\<close> read a decoded API response: a dict of
  string keys whose values are \<^verbatim>\<open>None\<close>, booleans, integers, strings, lists and dicts.
  A dict is an association list; a lookup and an update use the first binding of a key,
  and an update keeps the key's position, so that "the mapping is unchanged" is equality.
\<close>

datatype pyval =
    PNone
  | PBool bool
  | PInt int
  | PStr string
  | PList "pyval list"
  | PDict "(string \<times> pyval) list"

type_synonym pydict = "(string \<times> pyval) list"

text \<open>The exceptions the code can raise; \<open>KeyError\<close> carries the missing key.\<close>

datatype error = KeyError string | TypeError | ValueError | AttributeError

text \<open>Truth value of an object, as \<^verbatim>\<open>if x\<close>, \<^verbatim>\<open>x and y\<close>, \<^verbatim>\<open>x or y\<close> test it.\<close>

fun truthy :: "pyval \<Rightarrow> bool" where
  "truthy PNone = False"
| "truthy (PBool b) = b"
| "truthy (PInt i) = (i \<noteq> 0)"
| "truthy (PStr s) = (s \<noteq> [])"
| "truthy (PList xs) = (xs \<noteq> [])"
| "truthy (PDict d) = (d \<noteq> [])"

text \<open>\<^verbatim>\<open>d.get(k, default)\<close> and \<^verbatim>\<open>d[k]\<close> on a dict.\<close>

definition dict_get :: "pydict \<Rightarrow> string \<Rightarrow> pyval \<Rightarrow> pyval" where
  "dict_get d k dflt = (case map_of d k of Some v \<Rightarrow> v | None \<Rightarrow> dflt)"

definition dict_getitem :: "pydict \<Rightarrow> string \<Rightarrow> error + pyval" where
  "dict_getitem d k = (case map_of d k of Some v \<Rightarrow> Inr v | None \<Rightarrow> Inl (KeyError k))"

text \<open>
  The same on an arbitrary object: only a dict has \<^verbatim>\<open>.get\<close> (AttributeError otherwise);
  subscripting a string or a list with a string key, or subscripting \<^verbatim>\<open>None\<close>, a
  boolean or an integer, is a TypeError, and so is item assignment on them.
\<close>

fun py_get :: "pyval \<Rightarrow> string \<Rightarrow> pyval \<Rightarrow> error + pyval" where
  "py_get (PDict d) k dflt = Inr (dict_get d k dflt)"
| "py_get _ k dflt = Inl AttributeError"

fun py_getitem :: "pyval \<Rightarrow> string \<Rightarrow> error + pyval" where
  "py_getitem (PDict d) k = dict_getitem d k"
| "py_getitem _ k = Inl TypeError"

fun py_setitem :: "pyval \<Rightarrow> string \<Rightarrow> pyval \<Rightarrow> error + pyval" where
  "py_setitem (PDict d) k v = Inr (PDict (AList.update k v d))"
| "py_setitem _ k v = Inl TypeError"

text \<open>\<^verbatim>\<open>len(x)\<close> and iteration over \<^verbatim>\<open>x\<close>: strings, lists and dicts (its keys).\<close>

fun py_len :: "pyval \<Rightarrow> error + nat" where
  "py_len (PStr s) = Inr (length s)"
| "py_len (PList xs) = Inr (length xs)"
| "py_len (PDict d) = Inr (length (remdups (map fst d)))"
| "py_len _ = Inl TypeError"

fun py_iter :: "pyval \<Rightarrow> error + pyval list" where
  "py_iter (PStr s) = Inr (map (\<lambda>c. PStr [c]) s)"
| "py_iter (PList xs) = Inr xs"
| "py_iter (PDict d) = Inr (map PStr (remdups (map fst d)))"
| "py_iter _ = Inl TypeError"

text \<open>
  \<^verbatim>\<open>max(xs, key=k)\<close> where \<^verbatim>\<open>k\<close> is a string, as line 113 passes it
  (\<^verbatim>\<open>key='width'\<close>): \<^verbatim>\<open>max\<close> raises TypeError when \<^verbatim>\<open>xs\<close> is not iterable,
  ValueError when it is empty, and otherwise calls \<^verbatim>\<open>k(item)\<close> on the first item;
  a string is not callable, so that call raises TypeError.
\<close>

definition py_max_key_str :: "pyval \<Rightarrow> string \<Rightarrow> error + pyval" where
  "py_max_key_str xs k =
     (case py_iter xs of
        Inl e \<Rightarrow> Inl e
      | Inr [] \<Rightarrow> Inl ValueError
      | Inr (x # rest) \<Rightarrow> Inl TypeError)"

text \<open>
  \<^verbatim>\<open>set(xs)\<close>: the elements of an iterable, each hashable (a list or a dict is not:
  TypeError), without repetition. Equal elements are one element, and \<^verbatim>\<open>True == 1\<close>,
  \<^verbatim>\<open>False == 0\<close>. The set is kept as the list of its elements in insertion order.
\<close>

fun hashable :: "pyval \<Rightarrow> bool" where
  "hashable (PList xs) = False"
| "hashable (PDict d) = False"
| "hashable _ = True"

fun py_key :: "pyval \<Rightarrow> pyval" where
  "py_key (PBool b) = PInt (if b then 1 else 0)"
| "py_key v = v"

definition set_add :: "pyval list \<Rightarrow> pyval \<Rightarrow> pyval list" where
  "set_add acc x = (if py_key x \<in> set (map py_key acc) then acc else acc @ [x])"

definition py_set :: "pyval \<Rightarrow> error + pyval list" where
  "py_set v =
     (case py_iter v of
        Inl e \<Rightarrow> Inl e
      | Inr xs \<Rightarrow> if list_all hashable xs then Inr (foldl set_add [] xs) else Inl TypeError)"

section \<open>Collaborators that are not part of the module\<close>

text \<open>
  \<^verbatim>\<open>containers.py\<close> imports \<^verbatim>\<open>URL\<close> from the library yurl and
  \<^verbatim>\<open>sanitize_filename\<close> from \<^verbatim>\<open>tumdlr.downloader\<close>. Both are parameters of the
  model: \<open>URL\<close> builds a URL object from a value or raises, \<open>as_string\<close> renders it,
  \<open>sanitize_filename\<close> maps a value to a file name or raises. \<open>repr\<close> is the text
  Python's \<^verbatim>\<open>str\<close> gives for a list or a dict.
\<close>

record 'u collaborators =
  URL :: "pyval \<Rightarrow> error + 'u"
  as_string :: "'u \<Rightarrow> string"
  sanitize_filename :: "pyval \<Rightarrow> error + string"
  repr :: "pyval \<Rightarrow> string"

section \<open>The containers\<close>

text \<open>\<^verbatim>\<open>tumdlr.api.TumblrBlog\<close>: only its \<^verbatim>\<open>name\<close> is read here.\<close>

record TumblrBlog =
  name :: pyval

text \<open>
  \<^verbatim>\<open>TumblrFile\<close> and its subclass \<^verbatim>\<open>TumblrPhoto\<close>; \<open>data\<close> is \<^verbatim>\<open>self._data\<close>.
  The back reference \<^verbatim>\<open>self.container\<close> is not a field: the operations that follow it
  take the container as an argument.
\<close>

record 'u TumblrFile =
  data :: pyval
  file_type :: string
  file_url :: 'u

record 'u TumblrPhoto = "'u TumblrFile" +
  width :: pyval
  height :: pyval
  page_no :: pyval

text \<open>\<^verbatim>\<open>TumblrPost\<close>; \<open>raw\<close> is \<^verbatim>\<open>self._post\<close>, \<open>url = None\<close> is Python's \<^verbatim>\<open>None\<close>.\<close>

record 'u TumblrPost =
  raw :: pydict
  blog :: TumblrBlog
  post_id :: pyval
  post_type :: pyval
  url :: "'u option"
  tags :: "pyval list"
  post_date :: pyval
  note_count :: pyval
  files :: "'u TumblrPhoto list"

record 'u TumblrPhotoSet = "'u TumblrPost" +
  title :: pyval

subsection \<open>TumblrPost\<close>

text \<open>
  \<^verbatim>\<open>TumblrPost._parse_post\<close> (lines 71-77), on the object \<^verbatim>\<open>__init__\<close> has filled with
  its defaults (lines 33-44). The statements run in the source's order, so the first
  failing one decides the exception.
\<close>

definition TumblrPost_parse_post ::
  "'u collaborators \<Rightarrow> pydict \<Rightarrow> TumblrBlog \<Rightarrow> error + 'u TumblrPost" where
  "TumblrPost_parse_post env post b =
     (case dict_getitem post ''id'' of Inl e \<Rightarrow> Inl e | Inr i \<Rightarrow>
     (case dict_getitem post ''type'' of Inl e \<Rightarrow> Inl e | Inr t \<Rightarrow>
     (case (case map_of post ''post_url'' of
              None \<Rightarrow> Inr None
            | Some u \<Rightarrow> (case URL env u of Inl e \<Rightarrow> Inl e | Inr x \<Rightarrow> Inr (Some x))) of
        Inl e \<Rightarrow> Inl e | Inr u \<Rightarrow>
     (case py_set (dict_get post ''tags'' (PList [])) of Inl e \<Rightarrow> Inl e | Inr ts \<Rightarrow>
     (case dict_getitem post ''date'' of Inl e \<Rightarrow> Inl e | Inr d \<Rightarrow>
        Inr \<lparr> raw = post, blog = b, post_id = i, post_type = t, url = u, tags = ts,
              post_date = d, note_count = dict_get post ''note_count'' PNone,
              files = [] \<rparr>)))))"

text \<open>
  \<^verbatim>\<open>TumblrPost(post, blog)\<close>. A constructor returns the response mapping as it is after
  the call, next to the object or the exception: the base class only reads it.
\<close>

definition TumblrPost_init ::
  "'u collaborators \<Rightarrow> pydict \<Rightarrow> TumblrBlog \<Rightarrow> pydict \<times> (error + 'u TumblrPost)" where
  "TumblrPost_init env post b = (post, TumblrPost_parse_post env post b)"

definition is_text :: "'u TumblrPost \<Rightarrow> bool" where
  "is_text p = (post_type p = PStr ''text'')"

definition is_photo :: "'u TumblrPost \<Rightarrow> bool" where
  "is_photo p = (post_type p \<in> {PStr ''photo'', PStr ''link''})"

definition is_video :: "'u TumblrPost \<Rightarrow> bool" where
  "is_video p = (post_type p = PStr ''video'')"

subsection \<open>TumblrFile and TumblrPhoto: construction\<close>

text \<open>\<^verbatim>\<open>TumblrFile.__init__\<close> (lines 137-140).\<close>

definition TumblrFile_init :: "'u collaborators \<Rightarrow> pyval \<Rightarrow> error + 'u TumblrFile" where
  "TumblrFile_init env d =
     (case py_getitem d ''url'' of Inl e \<Rightarrow> Inl e | Inr u \<Rightarrow>
     (case URL env u of Inl e \<Rightarrow> Inl e | Inr x \<Rightarrow>
        Inr \<lparr> data = d, file_type = ''misc'', file_url = x \<rparr>))"

text \<open>\<^verbatim>\<open>TumblrPhoto.__init__\<close> (lines 189-194).\<close>

definition TumblrPhoto_init :: "'u collaborators \<Rightarrow> pyval \<Rightarrow> error + 'u TumblrPhoto" where
  "TumblrPhoto_init env photo =
     (case TumblrFile_init env photo of Inl e \<Rightarrow> Inl e | Inr f \<Rightarrow>
     (case py_get photo ''width'' PNone of Inl e \<Rightarrow> Inl e | Inr w \<Rightarrow>
     (case py_get photo ''height'' PNone of Inl e \<Rightarrow> Inl e | Inr h \<Rightarrow>
     (case py_get photo ''page_no'' (PBool False) of Inl e \<Rightarrow> Inl e | Inr p \<Rightarrow>
        Inr \<lparr> data = data f, file_type = ''photos'', file_url = file_url f,
              width = w, height = h, page_no = p \<rparr>))))"

subsection \<open>TumblrPhotoSet\<close>

text \<open>
  Line 113: \<^verbatim>\<open>photo.get('original_size') or max(photo['alt_sizes'], key='width')\<close>.
  \<^verbatim>\<open>or\<close> returns its left operand when that is true, and evaluates the right one
  only otherwise.
\<close>

definition select_best_size :: "pyval \<Rightarrow> error + pyval" where
  "select_best_size photo =
     (case py_get photo ''original_size'' PNone of
        Inl e \<Rightarrow> Inl e
      | Inr os \<Rightarrow>
          if truthy os then Inr os
          else (case py_getitem photo ''alt_sizes'' of
                  Inl e \<Rightarrow> Inl e
                | Inr alts \<Rightarrow> py_max_key_str alts ''width''))"

text \<open>
  Line 114 assigns into \<^verbatim>\<open>best_size\<close>. Whenever line 113 returns, \<^verbatim>\<open>best_size\<close> is the
  object bound to \<^verbatim>\<open>photo['original_size']\<close> (lemma \<open>select_best_size_is_original\<close>
  below), so the assignment shows in the photo record: \<open>store_best_size\<close> puts the
  updated size back there.
\<close>

definition store_best_size :: "pyval \<Rightarrow> pyval \<Rightarrow> pyval" where
  "store_best_size photo best =
     (case photo of PDict d \<Rightarrow> PDict (AList.update ''original_size'' best d) | _ \<Rightarrow> photo)"

text \<open>
  One turn of the loop of lines 112-115, for the value \<open>pn\<close> that line 114 stores. It
  returns the photo record as the turn leaves it, and the new \<^verbatim>\<open>TumblrPhoto\<close> or the
  exception that ends the loop.
\<close>

definition parse_photo ::
  "'u collaborators \<Rightarrow> pyval \<Rightarrow> pyval \<Rightarrow> pyval \<times> (error + 'u TumblrPhoto)" where
  "parse_photo env pn photo =
     (case select_best_size photo of
        Inl e \<Rightarrow> (photo, Inl e)
      | Inr best \<Rightarrow>
          (case py_setitem best ''page_no'' pn of
             Inl e \<Rightarrow> (photo, Inl e)
           | Inr best' \<Rightarrow> (store_best_size photo best', TumblrPhoto_init env best')))"

text \<open>
  The loop \<^verbatim>\<open>for page_no, photo in enumerate(photos, 1)\<close>: \<open>n\<close> is the running
  \<^verbatim>\<open>page_no\<close>. An exception leaves the records already visited as they were changed.
\<close>

fun parse_photos ::
  "'u collaborators \<Rightarrow> bool \<Rightarrow> nat \<Rightarrow> pyval list \<Rightarrow> pyval list \<times> (error + 'u TumblrPhoto list)"
where
  "parse_photos env is_photoset n [] = ([], Inr [])"
| "parse_photos env is_photoset n (photo # rest) =
     (case parse_photo env (if is_photoset then PInt (int n) else PBool False) photo of
        (photo', Inl e) \<Rightarrow> (photo' # rest, Inl e)
      | (photo', Inr f) \<Rightarrow>
          (case parse_photos env is_photoset (Suc n) rest of
             (rest', Inl e) \<Rightarrow> (photo' # rest', Inl e)
           | (rest', Inr fs) \<Rightarrow> (photo' # rest', Inr (f # fs))))"

text \<open>
  \<^verbatim>\<open>TumblrPhotoSet._parse_post\<close> (lines 106-115). The photo records are objects of the
  response, so what the loop assigns shows in the mapping when \<^verbatim>\<open>photos\<close> is the list
  stored under the key; the default \<^verbatim>\<open>[]\<close> is a fresh list, and iterating over a
  string or over the keys of a dict yields strings, on which \<^verbatim>\<open>.get\<close> raises at once.
\<close>

definition TumblrPhotoSet_parse_post ::
  "'u collaborators \<Rightarrow> pydict \<Rightarrow> TumblrBlog \<Rightarrow> pydict \<times> (error + 'u TumblrPhotoSet)" where
  "TumblrPhotoSet_parse_post env post b =
     (case TumblrPost_parse_post env post b of
        Inl e \<Rightarrow> (post, Inl e)
      | Inr base \<Rightarrow>
          (let t = dict_get post ''caption'' (dict_get post ''title'' PNone);
               photos = dict_get post ''photos'' (PList [])
           in case py_len photos of
                Inl e \<Rightarrow> (post, Inl e)
              | Inr n \<Rightarrow>
                  (case py_iter photos of
                     Inl e \<Rightarrow> (post, Inl e)
                   | Inr items \<Rightarrow>
                       (case parse_photos env (n > 1) 1 items of
                          (items', r) \<Rightarrow>
                            (let post' = (case map_of post ''photos'' of
                                            Some (PList xs) \<Rightarrow>
                                              AList.update ''photos'' (PList items') post
                                          | _ \<Rightarrow> post)
                             in (post',
                                 case r of
                                   Inl e \<Rightarrow> Inl e
                                 | Inr fs \<Rightarrow>
                                     Inr \<lparr> raw = post', blog = blog base,
                                           post_id = post_id base, post_type = post_type base,
                                           url = url base, tags = tags base,
                                           post_date = post_date base,
                                           note_count = note_count base,
                                           files = fs, title = t \<rparr>))))))"

text \<open>
  \<^verbatim>\<open>TumblrPhotoSet.__init__\<close> (lines 97-100): \<^verbatim>\<open>super().__init__\<close> runs
  \<^verbatim>\<open>self._parse_post()\<close>, which is the method of the subclass; then line 100 assigns
  \<^verbatim>\<open>self.title = None\<close>.
\<close>

definition TumblrPhotoSet_init ::
  "'u collaborators \<Rightarrow> pydict \<Rightarrow> TumblrBlog \<Rightarrow> pydict \<times> (error + 'u TumblrPhotoSet)" where
  "TumblrPhotoSet_init env post b =
     (case TumblrPhotoSet_parse_post env post b of
        (post', Inl e) \<Rightarrow> (post', Inl e)
      | (post', Inr ps) \<Rightarrow> (post', Inr (ps\<lparr>title := PNone\<rparr>)))"

section \<open>Text and paths\<close>

text \<open>Decimal text of an integer, as \<^verbatim>\<open>str\<close> and \<^verbatim>\<open>format\<close> give it.\<close>

fun str_of_nat :: "nat \<Rightarrow> string" where
  "str_of_nat n =
     (if n < 10 then [''0123456789'' ! n]
      else str_of_nat (n div 10) @ [''0123456789'' ! (n mod 10)])"

declare str_of_nat.simps [simp del]

definition str_of_int :: "int \<Rightarrow> string" where
  "str_of_int i = (if i < 0 then ''-'' @ str_of_nat (nat (- i)) else str_of_nat (nat i))"

text \<open>\<^verbatim>\<open>str(v)\<close>, which is also what an empty format field \<^verbatim>\<open>{name}\<close> inserts.\<close>

definition py_str :: "'u collaborators \<Rightarrow> pyval \<Rightarrow> string" where
  "py_str env v =
     (case v of
        PNone \<Rightarrow> ''None''
      | PBool b \<Rightarrow> (if b then ''True'' else ''False'')
      | PInt i \<Rightarrow> str_of_int i
      | PStr s \<Rightarrow> s
      | _ \<Rightarrow> repr env v)"

text \<open>
  \<^verbatim>\<open>os.path.splitext\<close> of \<^verbatim>\<open>posixpath\<close>: the extension starts at the last dot that
  comes after the last slash, provided a character other than a dot stands between
  that slash and that dot; otherwise it is empty.
\<close>

definition rfind :: "char \<Rightarrow> string \<Rightarrow> int" where
  "rfind c s = foldl (\<lambda>acc (i, x). if x = c then int i else acc) (- 1) (enumerate 0 s)"

definition splitext :: "string \<Rightarrow> string \<times> string" where
  "splitext p =
     (let sepIndex = rfind CHR ''/'' p; dotIndex = rfind CHR ''.'' p
      in if dotIndex > sepIndex \<and>
            list_ex (\<lambda>c. c \<noteq> CHR ''.'')
              (take (nat (dotIndex - (sepIndex + 1))) (drop (nat (sepIndex + 1)) p))
         then (take (nat dotIndex) p, drop (nat dotIndex) p)
         else (p, []))"

text \<open>
  \<^verbatim>\<open>pathlib.Path\<close> on a POSIX host: a path is a root (empty, one slash, or two slashes
  when the text starts with exactly two) and the list of its segments; empty segments
  and \<^verbatim>\<open>.\<close> are dropped. \<^verbatim>\<open>joinpath\<close> with a rooted argument replaces the path.
\<close>

datatype Path = Path (root: string) (segments: "string list")

fun split_sep :: "string \<Rightarrow> string list" where
  "split_sep [] = [[]]"
| "split_sep (c # cs) =
     (if c = CHR ''/'' then [] # split_sep cs
      else (case split_sep cs of w # ws \<Rightarrow> (c # w) # ws | [] \<Rightarrow> [[c]]))"

definition path_root :: "string \<Rightarrow> string" where
  "path_root s =
     (if take 2 s = ''//'' \<and> take 3 s \<noteq> ''///'' then ''//''
      else if take 1 s = ''/'' then ''/'' else [])"

definition Path_of :: "string \<Rightarrow> Path" where
  "Path_of s = Path (path_root s) (filter (\<lambda>x. x \<noteq> [] \<and> x \<noteq> ''.'') (split_sep s))"

text \<open>\<^verbatim>\<open>Path(x)\<close> accepts a string (a TypeError for the other values).\<close>

fun Path_init :: "pyval \<Rightarrow> error + Path" where
  "Path_init (PStr s) = Inr (Path_of s)"
| "Path_init _ = Inl TypeError"

definition joinpath :: "Path \<Rightarrow> string \<Rightarrow> Path" where
  "joinpath p s =
     (let q = Path_of s
      in if root q \<noteq> [] then q else Path (root p) (segments p @ segments q))"

fun join_sep :: "string list \<Rightarrow> string" where
  "join_sep [] = []"
| "join_sep [x] = x"
| "join_sep (x # y # ys) = x @ ''/'' @ join_sep (y # ys)"

definition Path_str :: "Path \<Rightarrow> string" where
  "Path_str p = (if root p = [] \<and> segments p = [] then ''.'' else root p @ join_sep (segments p))"

section \<open>Path resolution\<close>

text \<open>
  \<^verbatim>\<open>context.config[section][key]\<close>: the configuration is a mapping of sections to
  mappings.
\<close>

definition config_get :: "pyval \<Rightarrow> string \<Rightarrow> string \<Rightarrow> error + pyval" where
  "config_get config section k =
     (case py_getitem config section of Inl e \<Rightarrow> Inl e | Inr sec \<Rightarrow> py_getitem sec k)"

text \<open>
  \<^verbatim>\<open>TumblrFile.filepath(self, context, request_data)\<close> (lines 163-178); \<open>c\<close> is
  \<^verbatim>\<open>self.container\<close>, \<open>config\<close> is \<^verbatim>\<open>context.config\<close>.
\<close>

definition TumblrFile_filepath ::
  "'u collaborators \<Rightarrow> ('u, 'm) TumblrPost_scheme \<Rightarrow> pyval \<Rightarrow> pyval \<Rightarrow> error + Path" where
  "TumblrFile_filepath env c config request_data =
     (case config_get config ''Tumdlr'' ''SavePath'' of Inl e \<Rightarrow> Inl e | Inr sp \<Rightarrow>
     (case Path_init sp of Inl e \<Rightarrow> Inl e | Inr basedir \<Rightarrow>
     (case config_get config ''Categorization'' ''User'' of Inl e \<Rightarrow> Inl e | Inr u \<Rightarrow>
     (case (if truthy u
            then (case sanitize_filename env (name (blog c)) of
                    Inl e \<Rightarrow> Inl e
                  | Inr s \<Rightarrow> Inr (joinpath basedir s))
            else Inr basedir) of
        Inl e \<Rightarrow> Inl e | Inr basedir \<Rightarrow>
     (case config_get config ''Categorization'' ''PostType'' of Inl e \<Rightarrow> Inl e | Inr t \<Rightarrow>
        Inr (if truthy t then joinpath basedir ''photos'' else basedir))))))"

text \<open>
  A call of that method with the positional arguments \<open>args\<close> (after \<^verbatim>\<open>self\<close>): Python
  binds them to the parameters \<^verbatim>\<open>context\<close> and \<^verbatim>\<open>request_data\<close>, neither of which has
  a default, and raises TypeError before the body runs when their number is not two.
\<close>

definition call_TumblrFile_filepath ::
  "'u collaborators \<Rightarrow> ('u, 'm) TumblrPost_scheme \<Rightarrow> pyval list \<Rightarrow> error + Path" where
  "call_TumblrFile_filepath env c args =
     (case args of
        [context, request_data] \<Rightarrow> TumblrFile_filepath env c context request_data
      | _ \<Rightarrow> Inl TypeError)"

text \<open>\<^verbatim>\<open>request_data['progress_data'][k] = v\<close>, returning the updated \<^verbatim>\<open>request_data\<close>.\<close>

definition set_progress :: "pyval \<Rightarrow> string \<Rightarrow> pyval \<Rightarrow> error + pyval" where
  "set_progress request_data k v =
     (case py_getitem request_data ''progress_data'' of Inl e \<Rightarrow> Inl e | Inr pd \<Rightarrow>
     (case py_setitem pd k v of Inl e \<Rightarrow> Inl e | Inr pd' \<Rightarrow>
        py_setitem request_data ''progress_data'' pd'))"

text \<open>
  Lines 210-227 of \<^verbatim>\<open>TumblrPhoto.filepath\<close>: the composition of the file name once the
  local variable \<^verbatim>\<open>filepath\<close> holds the base directory. The result is the returned text
  or the exception, next to \<^verbatim>\<open>request_data\<close> as the statements leave it.
\<close>

definition TumblrPhoto_filepath_from ::
  "'u collaborators \<Rightarrow> 'u TumblrPhotoSet \<Rightarrow> 'u TumblrPhoto \<Rightarrow> Path \<Rightarrow> pyval \<Rightarrow> pyval
     \<Rightarrow> (error + string) \<times> pyval" where
  "TumblrPhoto_filepath_from env c self filepath config request_data =
     (case set_progress request_data ''Caption'' (title c) of
        Inl e \<Rightarrow> (Inl e, request_data)
      | Inr rd1 \<Rightarrow>
     (case (if truthy (page_no self)
            then (case config_get config ''Categorization'' ''Photosets'' of
                    Inl e \<Rightarrow> Inl e
                  | Inr ph \<Rightarrow>
                      if truthy ph
                      then (case sanitize_filename env (PStr (py_str env (post_id c))) of
                              Inl e \<Rightarrow> Inl e
                            | Inr s \<Rightarrow> Inr (joinpath filepath s))
                      else Inr filepath)
            else Inr filepath) of
        Inl e \<Rightarrow> (Inl e, rd1)
      | Inr fp \<Rightarrow>
     (let ext = snd (splitext (as_string env (file_url self)))
      in if truthy (page_no self)
         then (case sanitize_filename env
                      (PStr (''p'' @ py_str env (page_no self) @ ''_'' @ py_str env (title c))) of
                 Inl e \<Rightarrow> (Inl e, rd1)
               | Inr s \<Rightarrow>
                   (case set_progress rd1 ''Photoset Page''
                           (PStr (py_str env (page_no self) @ '' / '' @
                                  str_of_nat (length (files c)))) of
                      Inl e \<Rightarrow> (Inl e, rd1)
                    | Inr rd2 \<Rightarrow> (Inr (Path_str (joinpath fp s) @ ext), rd2)))
         else (case sanitize_filename env (title c) of
                 Inl e \<Rightarrow> (Inl e, rd1)
               | Inr s \<Rightarrow> (Inr (Path_str (joinpath fp s) @ ext), rd1)))))"

text \<open>
  \<^verbatim>\<open>TumblrPhoto.filepath(self, context, request_data)\<close> (lines 207-227). The container
  is a \<^verbatim>\<open>TumblrPhotoSet\<close> by its type here, so the assertion of line 207 holds. Line 208
  is \<^verbatim>\<open>super().filepath(context)\<close>: a call with one positional argument.
\<close>

definition TumblrPhoto_filepath ::
  "'u collaborators \<Rightarrow> 'u TumblrPhotoSet \<Rightarrow> 'u TumblrPhoto \<Rightarrow> pyval \<Rightarrow> pyval
     \<Rightarrow> (error + string) \<times> pyval" where
  "TumblrPhoto_filepath env c self config request_data =
     (case call_TumblrFile_filepath env c [config] of
        Inl e \<Rightarrow> (Inl e, request_data)
      | Inr filepath \<Rightarrow> TumblrPhoto_filepath_from env c self filepath config request_data)"

section \<open>Predicates used in the statements\<close>

text \<open>
  \<open>page_no_stored pn photo photo'\<close>: the photo record \<open>photo'\<close> is \<open>photo\<close>, or it is
  \<open>photo\<close> with the value \<open>pn\<close> assigned to the key \<^verbatim>\<open>page_no\<close> in the dict under its key
  \<^verbatim>\<open>original_size\<close>. \<open>photos_marked post post'\<close>: the response \<open>post'\<close> is \<open>post\<close>, or it
  is \<open>post\<close> with records of its \<^verbatim>\<open>photos\<close> list changed in that way only, where the
  value for the record at position \<open>i\<close> (from 0) is \<open>i + 1\<close> when the list has more than
  one record and \<^verbatim>\<open>False\<close> otherwise.
\<close>

definition page_no_stored :: "pyval \<Rightarrow> pyval \<Rightarrow> pyval \<Rightarrow> bool" where
  "page_no_stored pn photo photo' =
     (photo' = photo \<or>
      (\<exists>d sz. photo = PDict d \<and> map_of d ''original_size'' = Some (PDict sz) \<and>
         photo' = PDict (AList.update ''original_size''
                           (PDict (AList.update ''page_no'' pn sz)) d)))"

definition photos_marked :: "pydict \<Rightarrow> pydict \<Rightarrow> bool" where
  "photos_marked post post' =
     (post' = post \<or>
      (\<exists>photos photos'. map_of post ''photos'' = Some (PList photos) \<and>
         length photos' = length photos \<and>
         (\<forall>i < length photos.
            page_no_stored (if 1 < length photos then PInt (int (Suc i)) else PBool False)
              (photos ! i) (photos' ! i)) \<and>
         post' = AList.update ''photos'' (PList photos') post))"

text \<open>\<^verbatim>\<open>request_data['progress_data']\<close> exists and is a dict.\<close>

definition has_progress_data :: "pyval \<Rightarrow> bool" where
  "has_progress_data request_data =
     (case py_getitem request_data ''progress_data'' of Inr (PDict pd) \<Rightarrow> True | _ \<Rightarrow> False)"


section \<open>Concrete inputs\<close>

text \<open>
  An instance of the collaborators for the concrete examples. The URL object is its
  text. Modelled from the spec: the filename sanitizer of \<^verbatim>\<open>tumdlr.downloader\<close> is not
  part of the module; the spec describes it as a function from strings to strings safe
  as one path segment, without path separators. This instance replaces each slash by an
  underscore and rejects a value that is not a string.
\<close>

fun example_URL :: "pyval \<Rightarrow> error + string" where
  "example_URL (PStr s) = Inr s"
| "example_URL _ = Inl TypeError"

fun example_sanitize :: "pyval \<Rightarrow> error + string" where
  "example_sanitize (PStr s) = Inr (map (\<lambda>c. if c = CHR ''/'' then CHR ''_'' else c) s)"
| "example_sanitize _ = Inl TypeError"

definition example_env :: "string collaborators" where
  "example_env =
     \<lparr> URL = example_URL, as_string = (\<lambda>u. u), sanitize_filename = example_sanitize,
       repr = (\<lambda>v. []) \<rparr>"

definition example_blog :: TumblrBlog where
  "example_blog = \<lparr> name = PStr ''example'' \<rparr>"

definition size_entry :: "string \<Rightarrow> int \<Rightarrow> pyval" where
  "size_entry u w = PDict [(''url'', PStr u), (''width'', PInt w)]"

text \<open>A photo-set of three photos, post id 42, caption "Trip".\<close>

definition trip_photos :: "pyval list" where
  "trip_photos =
     [PDict [(''original_size'', size_entry ''http://x/a.jpg'' 500)],
      PDict [(''original_size'', size_entry ''http://x/b.jpg'' 500)],
      PDict [(''original_size'', size_entry ''http://x/c.jpg'' 500)]]"

definition trip_post :: pydict where
  "trip_post =
     [(''id'', PInt 42), (''type'', PStr ''photo''), (''date'', PStr ''2016-01-01''),
      (''caption'', PStr ''Trip''), (''photos'', PList trip_photos)]"

text \<open>A post of one photo, with a title and no caption.\<close>

definition sunset_post :: pydict where
  "sunset_post =
     [(''id'', PInt 42), (''type'', PStr ''photo''), (''date'', PStr ''2016-01-01''),
      (''title'', PStr ''Sunset''),
      (''photos'', PList [PDict [(''original_size'', size_entry ''http://x/s.jpg'' 500)]])]"

text \<open>A post with an empty caption and a title.\<close>

definition empty_caption_post :: pydict where
  "empty_caption_post =
     [(''id'', PInt 1), (''type'', PStr ''photo''), (''date'', PStr ''2016-01-01''),
      (''caption'', PStr []), (''title'', PStr ''T'')]"

text \<open>A photo record with alternate sizes of widths 100, 400, 250 and no original size.\<close>

definition alt_only_photo :: pyval where
  "alt_only_photo =
     PDict [(''alt_sizes'', PList
        [size_entry ''http://x/s.jpg'' 100, size_entry ''http://x/l.jpg'' 400,
         size_entry ''http://x/m.jpg'' 250])]"

definition alt_only_post :: pydict where
  "alt_only_post =
     [(''id'', PInt 7), (''type'', PStr ''photo''), (''date'', PStr ''2016-01-01''),
      (''photos'', PList [alt_only_photo])]"

text \<open>A text post, and the same with \<^verbatim>\<open>"tags": null\<close>.\<close>

definition text_post :: pydict where
  "text_post = [(''id'', PInt 1), (''type'', PStr ''text''), (''date'', PStr ''2016-01-01'')]"

definition null_tags_post :: pydict where
  "null_tags_post =
     [(''id'', PInt 1), (''type'', PStr ''text''), (''date'', PStr ''2016-01-01''),
      (''tags'', PNone)]"

text \<open>A configuration with a save path and the three categorization switches.\<close>

definition config_of :: "string \<Rightarrow> bool \<Rightarrow> bool \<Rightarrow> bool \<Rightarrow> pyval" where
  "config_of save_path by_user by_type by_photoset =
     PDict [(''Tumdlr'', PDict [(''SavePath'', PStr save_path)]),
            (''Categorization'',
               PDict [(''User'', PBool by_user), (''PostType'', PBool by_type),
                      (''Photosets'', PBool by_photoset)])]"

definition empty_request :: pyval where
  "empty_request = PDict [(''progress_data'', PDict [])]"

text \<open>A request whose progress data already holds an entry.\<close>

definition used_request :: pyval where
  "used_request = PDict [(''progress_data'', PDict [(''Caption'', PStr ''old'')])]"

text \<open>
  The Photo-Set of the three photos as \<^verbatim>\<open>_parse_post\<close> leaves it (title "Trip"), and
  as the constructor returns it (title \<^verbatim>\<open>None\<close>).
\<close>

definition trip_parsed :: "string TumblrPhotoSet" where
  "trip_parsed = projr (snd (TumblrPhotoSet_parse_post example_env trip_post example_blog))"

definition trip_set :: "string TumblrPhotoSet" where
  "trip_set = projr (snd (TumblrPhotoSet_init example_env trip_post example_blog))"

definition sunset_set :: "string TumblrPhotoSet" where
  "sunset_set = projr (snd (TumblrPhotoSet_init example_env sunset_post example_blog))"

section \<open>Best-size selection\<close>

lemma select_best_size_is_original:
  "select_best_size photo = Inr best \<Longrightarrow>
     \<exists>d. photo = PDict d \<and> map_of d ''original_size'' = Some best \<and> truthy best"
  by (cases photo)
     (auto simp: select_best_size_def dict_get_def py_max_key_str_def
           split: option.splits if_splits sum.splits list.splits)

lemma select_best_size_prefers_original:
  "map_of d ''original_size'' = Some os \<Longrightarrow> truthy os \<Longrightarrow> select_best_size (PDict d) = Inr os"
  by (simp add: select_best_size_def dict_get_def)

lemma py_max_key_str_raises: "isl (py_max_key_str xs k)"
  by (simp add: py_max_key_str_def split: sum.splits list.splits)

lemma select_best_size_without_original:
  "map_of d ''original_size'' = None \<Longrightarrow> isl (select_best_size (PDict d))"
  by (auto simp: select_best_size_def dict_get_def py_max_key_str_raises split: sum.splits)

text \<open>
  C1. The claim: an original size is selected when the record has one; otherwise the
  alternate size of maximum width is selected, the first one on a tie; for alternate
  widths 100, 400, 250 and no original size the entry of width 400 is selected. The
  first part holds (\<open>select_best_size_prefers_original\<close>). On the record with alternate
  widths 100, 400, 250 line 113 raises TypeError instead of selecting the entry of width
  400, because \<^verbatim>\<open>max\<close> is given the string \<^verbatim>\<open>'width'\<close> as its key function; parsing the
  post that holds this record raises the same exception and produces no Photo-Set.
\<close>

theorem alt_sizes_selection_raises:
  "select_best_size alt_only_photo = Inl TypeError \<and>
   TumblrPhotoSet_init example_env alt_only_post example_blog = (alt_only_post, Inl TypeError)"
  by code_simp

section \<open>Photo-Set parsing\<close>







text \<open>
  The title: \<^verbatim>\<open>_parse_post\<close> resolves it from the caption, else from the title field, else
  leaves it unset; the constructor then assigns \<^verbatim>\<open>None\<close> (line 100).
\<close>

lemma TumblrPhotoSet_parse_post_title:
  "snd (TumblrPhotoSet_parse_post env post b) = Inr ps \<Longrightarrow>
     title ps = (case map_of post ''caption'' of
                   Some c \<Rightarrow> c
                 | None \<Rightarrow> (case map_of post ''title'' of Some t \<Rightarrow> t | None \<Rightarrow> PNone))"
  by (auto simp: TumblrPhotoSet_parse_post_def Let_def dict_get_def
           split: sum.splits prod.splits option.splits)

lemma TumblrPhotoSet_init_title:
  "snd (TumblrPhotoSet_init env post b) = Inr ps \<Longrightarrow> title ps = PNone"
  by (auto simp: TumblrPhotoSet_init_def split: sum.splits prod.splits)

text \<open>
  C8. The claim: the title of a Photo-Set is its caption when there is one, else its title
  field, else unset. For the post with caption "Trip", \<^verbatim>\<open>_parse_post\<close> assigns the caption
  (line 107), but the constructed Photo-Set has the title \<^verbatim>\<open>None\<close>: line 100 runs after
  \<^verbatim>\<open>super().__init__\<close> has parsed the post.
\<close>

theorem caption_title_lost:
  "map_sum id title (snd (TumblrPhotoSet_parse_post example_env trip_post example_blog))
     = Inr (PStr ''Trip'') \<and>
   map_sum id title (snd (TumblrPhotoSet_init example_env trip_post example_blog)) = Inr PNone"
  by code_simp

text \<open>
  C10. The claim: with the caption key present and empty, the resolved title is the empty
  string and the title field is not consulted. \<^verbatim>\<open>_parse_post\<close> assigns the empty string,
  but the constructed Photo-Set has the title \<^verbatim>\<open>None\<close>, for the reason given at C8.
\<close>

theorem empty_caption_title_lost:
  "map_sum id title (snd (TumblrPhotoSet_parse_post example_env empty_caption_post example_blog))
     = Inr (PStr []) \<and>
   map_sum id title (snd (TumblrPhotoSet_init example_env empty_caption_post example_blog))
     = Inr PNone"
  by code_simp

section \<open>The response mapping after construction\<close>

lemma parse_photo_frame: "page_no_stored pn photo (fst (parse_photo env pn photo))"
proof (cases "select_best_size photo")
  case (Inl e)
  then show ?thesis by (simp add: parse_photo_def page_no_stored_def)
next
  case (Inr best)
  from select_best_size_is_original [OF Inr] obtain d where
    d: "photo = PDict d" "map_of d ''original_size'' = Some best" by blast
  show ?thesis
  proof (cases best)
    case (PDict sz)
    with Inr d show ?thesis
      by (auto simp: parse_photo_def page_no_stored_def store_best_size_def)
  qed (use Inr in \<open>simp_all add: parse_photo_def page_no_stored_def\<close>)
qed

lemma parse_photos_fst_Cons:
  "fst (parse_photos env isps n (photo # rest)) =
     fst (parse_photo env (if isps then PInt (int n) else PBool False) photo) #
     (if isl (snd (parse_photo env (if isps then PInt (int n) else PBool False) photo))
      then rest else fst (parse_photos env isps (Suc n) rest))"
  by (auto split: prod.splits sum.splits)

lemma parse_photos_frame:
  "length (fst (parse_photos env isps n items)) = length items \<and>
   (\<forall>i < length items.
      page_no_stored (if isps then PInt (int (n + i)) else PBool False)
        (items ! i) (fst (parse_photos env isps n items) ! i))"
proof (induction items arbitrary: n)
  case Nil
  then show ?case by simp
next
  case (Cons photo rest)
  let ?pv = "if isps then PInt (int n) else PBool False"
  let ?tl = "if isl (snd (parse_photo env ?pv photo)) then rest
             else fst (parse_photos env isps (Suc n) rest)"
  have len: "length ?tl = length rest"
    using Cons.IH [of "Suc n"] by simp
  have tl: "page_no_stored (if isps then PInt (int (n + Suc j)) else PBool False)
              (rest ! j) (?tl ! j)" if "j < length rest" for j
  proof (cases "isl (snd (parse_photo env ?pv photo))")
    case True
    then have "?tl = rest" by simp
    then show ?thesis by (simp add: page_no_stored_def)
  next
    case False
    then have eq: "?tl = fst (parse_photos env isps (Suc n) rest)" by simp
    have ar: "n + Suc j = Suc n + j" by simp
    from Cons.IH [of "Suc n"] that
    have "page_no_stored (if isps then PInt (int (Suc n + j)) else PBool False)
            (rest ! j) (fst (parse_photos env isps (Suc n) rest) ! j)"
      by blast
    then show ?thesis unfolding eq ar .
  qed
  have hd: "page_no_stored ?pv photo (fst (parse_photo env ?pv photo))"
    by (rule parse_photo_frame)
  show ?case
  proof (intro conjI allI impI)
    show "length (fst (parse_photos env isps n (photo # rest))) = length (photo # rest)"
      unfolding parse_photos_fst_Cons using len by simp
  next
    fix i assume i: "i < length (photo # rest)"
    show "page_no_stored (if isps then PInt (int (n + i)) else PBool False)
            ((photo # rest) ! i) (fst (parse_photos env isps n (photo # rest)) ! i)"
    proof (cases i)
      case 0
      have "n + 0 = n" by simp
      with hd show ?thesis unfolding parse_photos_fst_Cons 0 nth_Cons_0 by (simp only:)
    next
      case (Suc j)
      with i have "j < length rest" by simp
      from tl [OF this] show ?thesis unfolding parse_photos_fst_Cons Suc nth_Cons_Suc .
    qed
  qed
qed

lemma TumblrPhotoSet_parse_post_frame:
  "photos_marked post (fst (TumblrPhotoSet_parse_post env post b))"
proof (cases "map_of post ''photos''")
  case None
  then show ?thesis
    by (auto simp: TumblrPhotoSet_parse_post_def photos_marked_def Let_def dict_get_def
             split: sum.splits prod.splits)
next
  case (Some v)
  show ?thesis
  proof (cases v)
    case (PList photos)
    from parse_photos_frame [of env "1 < length photos" 1 photos]
    have f: "length (fst (parse_photos env (1 < length photos) 1 photos)) = length photos"
      "\<forall>i < length photos.
         page_no_stored (if 1 < length photos then PInt (int (Suc i)) else PBool False)
           (photos ! i) (fst (parse_photos env (1 < length photos) 1 photos) ! i)"
      unfolding plus_1_eq_Suc by blast+
    show ?thesis
    proof (cases "TumblrPost_parse_post env post b")
      case (Inl e)
      then show ?thesis
        by (simp add: TumblrPhotoSet_parse_post_def photos_marked_def)
    next
      case (Inr base)
      have "fst (TumblrPhotoSet_parse_post env post b) =
              AList.update ''photos''
                (PList (fst (parse_photos env (1 < length photos) 1 photos))) post"
        using Inr Some PList
        by (simp add: TumblrPhotoSet_parse_post_def Let_def dict_get_def split: prod.splits)
      with Some PList f show ?thesis
        unfolding photos_marked_def by blast
    qed
  qed (use Some in \<open>auto simp: TumblrPhotoSet_parse_post_def photos_marked_def Let_def
               dict_get_def split: sum.splits prod.splits\<close>)
qed

lemma TumblrPhotoSet_init_fst:
  "fst (TumblrPhotoSet_init env post b) = fst (TumblrPhotoSet_parse_post env post b)"
  by (simp add: TumblrPhotoSet_init_def split: prod.splits sum.splits)

text \<open>
  C9, as stated: constructing a Post or a Photo-Set leaves the response mapping unchanged.
  It fails for the post of one photo: after the construction of the Photo-Set the size
  entry of the photo holds the key \<^verbatim>\<open>page_no\<close> (line 114 assigns into the entry itself).
\<close>

theorem response_changed_counterexample:
  "fst (TumblrPhotoSet_init example_env sunset_post example_blog) \<noteq> sunset_post \<and>
   fst (TumblrPhotoSet_init example_env sunset_post example_blog) =
     [(''id'', PInt 42), (''type'', PStr ''photo''), (''date'', PStr ''2016-01-01''),
      (''title'', PStr ''Sunset''),
      (''photos'', PList [PDict [(''original_size'',
         PDict [(''url'', PStr ''http://x/s.jpg''), (''width'', PInt 500),
                (''page_no'', PBool False)])]])]"
  by code_simp

text \<open>
  C9, amended: constructing a Post leaves the response mapping unchanged; constructing a
  Photo-Set leaves it unchanged except that, in photo records of its \<^verbatim>\<open>photos\<close> list, the
  dict under \<^verbatim>\<open>original_size\<close> has the key \<^verbatim>\<open>page_no\<close> assigned: the page number of
  the record, or \<^verbatim>\<open>False\<close> when the list has one record. Every other key of the
  mapping, the number and order of the records and every other field of a record are
  as before.
\<close>

theorem construction_frame:
  "fst (TumblrPost_init env post b) = post \<and>
   photos_marked post (fst (TumblrPhotoSet_init env post b))"
  by (simp add: TumblrPost_init_def TumblrPhotoSet_init_fst TumblrPhotoSet_parse_post_frame)

theorem construction_frame_witness:
  "fst (TumblrPost_init example_env sunset_post example_blog) = sunset_post \<and>
   photos_marked sunset_post (fst (TumblrPhotoSet_init example_env sunset_post example_blog))"
  by (rule construction_frame)

section \<open>Path resolution\<close>

lemma TumblrPhoto_filepath_always_raises:
  "TumblrPhoto_filepath env c self config rd = (Inl TypeError, rd)"
  by (simp add: TumblrPhoto_filepath_def call_TumblrFile_filepath_def)

text \<open>
  C2. The claim: for the photo-set 42 of blog "example" with three photos, save root
  \<^verbatim>\<open>/out\<close> and the switches on, the path of the photo of page 2 with title "Trip" is
  \<^verbatim>\<open>/out/example/photos/42/p2_Trip.jpg\<close> and the annotation "2 / 3" is recorded. The call
  raises TypeError and records nothing: line 208 calls \<^verbatim>\<open>super().filepath(context)\<close>
  without the argument \<^verbatim>\<open>request_data\<close> that \<^verbatim>\<open>TumblrFile.filepath\<close> requires. The
  photo-set has three photos, the photo has page 2, and its title is \<^verbatim>\<open>None\<close> (see C8).
\<close>

theorem trip_path_raises:
  "\<not> isl (snd (TumblrPhotoSet_init example_env trip_post example_blog)) \<and>
   length (files trip_set) = 3 \<and> page_no (files trip_set ! 1) = PInt 2 \<and>
   title trip_set = PNone \<and>
   TumblrPhoto_filepath example_env trip_set (files trip_set ! 1)
       (config_of ''/out'' True True True) empty_request
     = (Inl TypeError, empty_request)"
  by code_simp

text \<open>
  The composition of lines 210-227 by itself, from the base directory the base rule
  gives, on the Photo-Set as \<^verbatim>\<open>_parse_post\<close> leaves it.
\<close>

lemma trip_path_composition:
  "TumblrFile_filepath example_env trip_parsed (config_of ''/out'' True True True) empty_request
     = Inr (Path_of ''/out/example/photos'') \<and>
   TumblrPhoto_filepath_from example_env trip_parsed (files trip_parsed ! 1)
       (Path_of ''/out/example/photos'') (config_of ''/out'' True True True) empty_request
     = (Inr ''/out/example/photos/42/p2_Trip.jpg'',
        PDict [(''progress_data'',
                PDict [(''Caption'', PStr ''Trip''), (''Photoset Page'', PStr ''2 / 3'')])])"
  by code_simp

text \<open>
  C6. The claim: with only the switch "by user" on, the path of a photo is the path with
  all switches off plus one segment, the sanitized blog name; with only "by photoset" on,
  the path of a photo without page number is the path with all switches off. For the
  single photo of the post "Sunset" no path is produced under any of these settings: the
  call raises TypeError at line 208, as in C2.
\<close>

theorem toggle_paths_raise:
  "\<not> isl (snd (TumblrPhotoSet_init example_env sunset_post example_blog)) \<and>
   page_no (files sunset_set ! 0) = PBool False \<and>
   TumblrPhoto_filepath example_env sunset_set (files sunset_set ! 0)
       (config_of ''/out'' False False False) empty_request = (Inl TypeError, empty_request) \<and>
   TumblrPhoto_filepath example_env sunset_set (files sunset_set ! 0)
       (config_of ''/out'' True False False) empty_request = (Inl TypeError, empty_request) \<and>
   TumblrPhoto_filepath example_env sunset_set (files sunset_set ! 0)
       (config_of ''/out'' False False True) empty_request = (Inl TypeError, empty_request)"
  by code_simp

text \<open>The rules themselves, below line 208: the base rule and the guard of lines 213-215.\<close>

lemma TumblrFile_filepath_by_user:
  assumes "sanitize_filename env (name (blog c)) = Inr s"
  shows "TumblrFile_filepath env c (config_of save_path False False False) rd
           = Inr (Path_of save_path) \<and>
         TumblrFile_filepath env c (config_of save_path True False False) rd
           = Inr (joinpath (Path_of save_path) s)"
  using assms
  by (simp add: TumblrFile_filepath_def config_of_def config_get_def dict_getitem_def)

lemma split_sep_single: "CHR ''/'' \<notin> set s \<Longrightarrow> split_sep s = [s]"
  by (induction s) auto

lemma joinpath_one_segment:
  assumes "s \<noteq> []" and "s \<noteq> ''.''" and "CHR ''/'' \<notin> set s"
  shows "joinpath p s = Path (root p) (segments p @ [s])"
proof -
  from assms(1,3) have "path_root s = []"
    by (cases s) (auto simp: path_root_def)
  with assms show ?thesis
    by (simp add: joinpath_def Path_of_def split_sep_single)
qed

lemma photoset_switch_without_page:
  assumes "\<not> truthy (page_no self)"
  shows "TumblrPhoto_filepath_from env c self fp (config_of save_path u t True) rd =
         TumblrPhoto_filepath_from env c self fp (config_of save_path u t False) rd"
  using assms by (simp add: TumblrPhoto_filepath_from_def)

section \<open>The side channel\<close>

lemma has_progress_dataD:
  "has_progress_data rd \<Longrightarrow> \<exists>d pd. rd = PDict d \<and> map_of d ''progress_data'' = Some (PDict pd)"
  by (cases rd) (auto simp: has_progress_data_def dict_getitem_def split: option.splits pyval.splits)

lemma set_progress_ok:
  assumes "has_progress_data rd"
  shows "\<exists>rd'. set_progress rd k v = Inr rd' \<and> has_progress_data rd'"
proof -
  from has_progress_dataD [OF assms] obtain d pd where
    "rd = PDict d" "map_of d ''progress_data'' = Some (PDict pd)" by blast
  then show ?thesis
    by (simp add: set_progress_def dict_getitem_def has_progress_data_def update_conv')
qed

lemma filepath_from_side_channel:
  assumes "has_progress_data rd" and "has_progress_data rd'"
  shows "fst (TumblrPhoto_filepath_from env c self fp config rd) =
         fst (TumblrPhoto_filepath_from env c self fp config rd')"
proof -
  from set_progress_ok [OF assms(1)] obtain r1 where
    r1: "set_progress rd ''Caption'' (title c) = Inr r1" "has_progress_data r1" by blast
  from set_progress_ok [OF assms(2)] obtain r1' where
    r1': "set_progress rd' ''Caption'' (title c) = Inr r1'" "has_progress_data r1'" by blast
  define v where "v = PStr (py_str env (page_no self) @ '' / '' @ str_of_nat (length (files c)))"
  from set_progress_ok [OF r1(2)] obtain r2 where
    r2: "set_progress r1 ''Photoset Page'' v = Inr r2" by blast
  from set_progress_ok [OF r1'(2)] obtain r2' where
    r2': "set_progress r1' ''Photoset Page'' v = Inr r2'" by blast
  show ?thesis
    unfolding TumblrPhoto_filepath_from_def v_def [symmetric]
    by (cases "truthy (page_no self)";
        cases "config_get config ''Categorization'' ''Photosets''";
        cases "sanitize_filename env (PStr (py_str env (post_id c)))";
        cases "sanitize_filename env
                 (PStr (''p'' @ py_str env (page_no self) @ ''_'' @ py_str env (title c)))";
        cases "sanitize_filename env (title c)";
        simp add: r1(1) r1'(1) r2 r2')
qed

lemma filepath_from_keeps_progress_data:
  assumes "has_progress_data rd"
  shows "has_progress_data (snd (TumblrPhoto_filepath_from env c self fp config rd))"
proof -
  from set_progress_ok [OF assms] obtain r1 where
    r1: "set_progress rd ''Caption'' (title c) = Inr r1" "has_progress_data r1" by blast
  define v where "v = PStr (py_str env (page_no self) @ '' / '' @ str_of_nat (length (files c)))"
  from set_progress_ok [OF r1(2)] obtain r2 where
    r2: "set_progress r1 ''Photoset Page'' v = Inr r2" "has_progress_data r2" by blast
  show ?thesis
    unfolding TumblrPhoto_filepath_from_def v_def [symmetric]
    by (cases "truthy (page_no self)";
        cases "config_get config ''Categorization'' ''Photosets''";
        cases "sanitize_filename env (PStr (py_str env (post_id c)))";
        cases "sanitize_filename env
                 (PStr (''p'' @ py_str env (page_no self) @ ''_'' @ py_str env (title c)))";
        cases "sanitize_filename env (title c)";
        simp add: r1 r2 assms)
qed

text \<open>
  C7. Path resolution is deterministic and the side channel does not affect the result:
  the result of \<^verbatim>\<open>TumblrPhoto.filepath\<close> is the same for any two contents of
  \<^verbatim>\<open>request_data\<close>, and a second call, which sees the \<^verbatim>\<open>request_data\<close> the first call
  left, gives the result of the first. The same holds for the composition of lines
  210-227 taken alone, from any base directory, whenever \<^verbatim>\<open>request_data\<close> has its
  \<^verbatim>\<open>progress_data\<close> dict.
\<close>

theorem path_resolution_deterministic:
  "fst (TumblrPhoto_filepath env c self config rd') = fst (TumblrPhoto_filepath env c self config rd) \<and>
   fst (TumblrPhoto_filepath env c self config (snd (TumblrPhoto_filepath env c self config rd)))
     = fst (TumblrPhoto_filepath env c self config rd) \<and>
   (has_progress_data rd \<and> has_progress_data rd' \<longrightarrow>
      fst (TumblrPhoto_filepath_from env c self fp config rd')
        = fst (TumblrPhoto_filepath_from env c self fp config rd)) \<and>
   (has_progress_data rd \<longrightarrow>
      fst (TumblrPhoto_filepath_from env c self fp config
             (snd (TumblrPhoto_filepath_from env c self fp config rd)))
        = fst (TumblrPhoto_filepath_from env c self fp config rd))"
proof -
  have a: "has_progress_data rd \<and> has_progress_data rd' \<longrightarrow>
      fst (TumblrPhoto_filepath_from env c self fp config rd')
        = fst (TumblrPhoto_filepath_from env c self fp config rd)"
    using filepath_from_side_channel by blast
  have b: "has_progress_data rd \<longrightarrow>
      fst (TumblrPhoto_filepath_from env c self fp config
             (snd (TumblrPhoto_filepath_from env c self fp config rd)))
        = fst (TumblrPhoto_filepath_from env c self fp config rd)"
    using filepath_from_side_channel filepath_from_keeps_progress_data by blast
  show ?thesis
    using a b by (simp add: TumblrPhoto_filepath_always_raises)
qed

theorem path_resolution_deterministic_witness:
  "has_progress_data empty_request \<and> has_progress_data used_request \<and>
   fst (TumblrPhoto_filepath_from example_env trip_parsed (files trip_parsed ! 1)
          (Path_of ''/out/example/photos'') (config_of ''/out'' True True True) used_request)
     = fst (TumblrPhoto_filepath_from example_env trip_parsed (files trip_parsed ! 1)
          (Path_of ''/out/example/photos'') (config_of ''/out'' True True True) empty_request)"
proof -
  have h: "has_progress_data empty_request" "has_progress_data used_request"
    by code_simp+
  from path_resolution_deterministic
         [of example_env trip_parsed "files trip_parsed ! 1" "config_of ''/out'' True True True"
             used_request empty_request "Path_of ''/out/example/photos''"]
       h
  show ?thesis by blast
qed

section \<open>Post parsing\<close>

text \<open>
  C4, as stated: parsing succeeds for every mapping that has the keys \<^verbatim>\<open>id\<close>, \<^verbatim>\<open>type\<close> and
  \<^verbatim>\<open>date\<close>, and fails only when one of them is missing. It fails for the mapping that
  has the three keys and \<^verbatim>\<open>"tags": null\<close>: \<^verbatim>\<open>set(None)\<close> raises TypeError (line 75).
\<close>

theorem null_tags_counterexample:
  "map_of null_tags_post ''id'' = Some (PInt 1) \<and>
   map_of null_tags_post ''type'' = Some (PStr ''text'') \<and>
   map_of null_tags_post ''date'' = Some (PStr ''2016-01-01'') \<and>
   TumblrPost_parse_post example_env null_tags_post example_blog = Inl TypeError"
  by code_simp

text \<open>
  C4, amended: parsing succeeds exactly for the mappings that have the keys \<^verbatim>\<open>id\<close>,
  \<^verbatim>\<open>type\<close> and \<^verbatim>\<open>date\<close>, whose \<^verbatim>\<open>post_url\<close>, when present, is accepted by \<^verbatim>\<open>URL\<close>, and
  whose \<^verbatim>\<open>tags\<close>, when present, is an iterable of hashable values; the parsed id, type
  and post date are then the values of the mapping. A missing \<^verbatim>\<open>id\<close> raises KeyError for
  \<^verbatim>\<open>id\<close>, a missing \<^verbatim>\<open>type\<close> KeyError for \<^verbatim>\<open>type\<close>, and a missing \<^verbatim>\<open>date\<close>, when the
  rest is accepted, KeyError for \<^verbatim>\<open>date\<close>.
\<close>

theorem post_parse_mandatory_fields:
  "((\<exists>p. TumblrPost_parse_post env post b = Inr p) \<longleftrightarrow>
      map_of post ''id'' \<noteq> None \<and> map_of post ''type'' \<noteq> None \<and>
      map_of post ''date'' \<noteq> None \<and>
      (\<forall>u. map_of post ''post_url'' = Some u \<longrightarrow> \<not> isl (URL env u)) \<and>
      (\<exists>xs. py_iter (dict_get post ''tags'' (PList [])) = Inr xs \<and> list_all hashable xs)) \<and>
   (\<forall>p. TumblrPost_parse_post env post b = Inr p \<longrightarrow>
      map_of post ''id'' = Some (post_id p) \<and> map_of post ''type'' = Some (post_type p) \<and>
      map_of post ''date'' = Some (post_date p)) \<and>
   (map_of post ''id'' = None \<longrightarrow>
      TumblrPost_parse_post env post b = Inl (KeyError ''id'')) \<and>
   (map_of post ''id'' \<noteq> None \<and> map_of post ''type'' = None \<longrightarrow>
      TumblrPost_parse_post env post b = Inl (KeyError ''type'')) \<and>
   (map_of post ''id'' \<noteq> None \<and> map_of post ''type'' \<noteq> None \<and>
    (\<forall>u. map_of post ''post_url'' = Some u \<longrightarrow> \<not> isl (URL env u)) \<and>
    (\<exists>xs. py_iter (dict_get post ''tags'' (PList [])) = Inr xs \<and> list_all hashable xs) \<and>
    map_of post ''date'' = None \<longrightarrow>
      TumblrPost_parse_post env post b = Inl (KeyError ''date''))"
proof -
  have tags: "(\<exists>ts. py_set v = Inr ts) \<longleftrightarrow>
              (\<exists>xs. py_iter v = Inr xs \<and> list_all hashable xs)" for v
    by (auto simp: py_set_def split: sum.splits)
  have tags': "py_iter v = Inr xs \<Longrightarrow> list_all hashable xs \<Longrightarrow>
               py_set v = Inr (foldl set_add [] xs)" for v xs
    by (simp add: py_set_def)
  show ?thesis
    unfolding TumblrPost_parse_post_def dict_getitem_def
    by (cases "map_of post ''id''"; cases "map_of post ''type''"; cases "map_of post ''date''";
        cases "map_of post ''post_url''"; cases "py_set (dict_get post ''tags'' (PList []))";
        cases "py_iter (dict_get post ''tags'' (PList []))")
       (auto simp: py_set_def split: sum.splits if_splits)
qed

theorem post_parse_mandatory_fields_witness:
  "\<exists>p. TumblrPost_parse_post example_env text_post example_blog = Inr p \<and>
       post_id p = PInt 1 \<and> post_type p = PStr ''text'' \<and> post_date p = PStr ''2016-01-01''"
proof -
  have k: "map_of text_post ''id'' = Some (PInt 1)" "map_of text_post ''type'' = Some (PStr ''text'')"
    "map_of text_post ''date'' = Some (PStr ''2016-01-01'')" "map_of text_post ''post_url'' = None"
    by (simp_all add: text_post_def)
  have t: "py_iter (dict_get text_post ''tags'' (PList [])) = Inr [] \<and> list_all hashable []"
    by (simp add: text_post_def dict_get_def)
  from post_parse_mandatory_fields [of example_env text_post example_blog] k t
  show ?thesis by auto
qed

section \<open>The unset title in a path\<close>






end
